theory Spec2Isabelle
  imports Main "HOL-Library.Sublist"
begin

section \<open>The document-conversion script \<^verbatim>\<open>notebooks/sandbox/read_docs.py\<close>\<close>

text \<open>
  The script imports two third-party libraries (installing them when the import fails),
  defines \<^verbatim>\<open>read_pdf\<close> and \<^verbatim>\<open>read_docx\<close>, and then writes one output file from two
  hard-coded input files. Everything it touches outside its own code is made explicit:
  the file system and the Python environment are a record that is passed along and
  returned, and the third-party calls (\<^verbatim>\<open>pip\<close>, \<^verbatim>\<open>PyPDF2.PdfReader\<close>,
  \<^verbatim>\<open>page.extract_text\<close>, \<^verbatim>\<open>docx.Document\<close>, \<^verbatim>\<open>para.text\<close>) are the fields of a record
  of functions that every operation takes as its first argument. An exception is a
  value \<open>Inl e\<close> of a sum type.

  A Python string is modelled by its UTF-8 encoding, a list of 8-bit characters. The
  script only concatenates strings and writes them through the UTF-8 codec, and the
  encoding of a concatenation is the concatenation of the encodings; a line feed is the
  single character \<open>0x0A\<close>. Strings that have no UTF-8 encoding are left out, and so is
  a write that fails for lack of space.
\<close>

subsection \<open>Text, paths, errors\<close>

type_synonym path = string

text \<open>What the file system holds at a path: nothing, a file that cannot be opened, or a
  file with its content.\<close>

datatype entry = Absent | Denied | Content string

datatype error =
    FileNotFoundError path
  | PermissionError path
  | OSError path
  | PdfReadError string
  | PackageNotFoundError string
  | ImportError string
  | CalledProcessError int

text \<open>The line feed character, Python's \<^verbatim>\<open>'\n'\<close>.\<close>

definition nl :: string where
  "nl = [CHR 0x0A]"

text \<open>Python's \<^verbatim>\<open>sep.join(xs)\<close>: the elements of \<open>xs\<close> with \<open>sep\<close> between neighbours.\<close>

fun join :: "string \<Rightarrow> string list \<Rightarrow> string" where
  "join sep [] = []"
| "join sep [x] = x"
| "join sep (x # y # ys) = x @ sep @ join sep (y # ys)"

subsection \<open>The world and the libraries\<close>

text \<open>
  \<open>files\<close> is the file system, \<open>creatable p\<close> says whether the path \<open>p\<close> can be opened
  for writing, \<open>modules\<close> is the set of module names an \<^verbatim>\<open>import\<close> finds, and \<open>pip_log\<close>
  records every package the script has asked \<^verbatim>\<open>pip\<close> to install, in order.
\<close>

record world =
  files :: "path \<Rightarrow> entry"
  creatable :: "path \<Rightarrow> bool"
  modules :: "string set"
  pip_log :: "string list"

text \<open>
  The third-party code. \<open>pip_install pkg ms\<close> is the exit status of
  \<^verbatim>\<open>python -m pip install pkg --quiet\<close> and the importable modules after it.
  \<open>PdfReader\<close> parses the content of a file into its pages and \<open>extract_text\<close> gives
  the text of a page; both may raise. \<open>Document\<close> parses the content of a file into its
  paragraphs and \<open>para_text\<close> is the attribute \<^verbatim>\<open>para.text\<close>.
\<close>

record ('pg, 'pa) library =
  pip_install :: "string \<Rightarrow> string set \<Rightarrow> int \<times> string set"
  PdfReader :: "string \<Rightarrow> error + 'pg list"
  extract_text :: "'pg \<Rightarrow> error + string"
  Document :: "string \<Rightarrow> error + 'pa list"
  para_text :: "'pa \<Rightarrow> string"

subsection \<open>Lines 5 to 15: import, or install and import again\<close>

definition py_import :: "world \<Rightarrow> string \<Rightarrow> error + unit" where
  "py_import w m = (if m \<in> modules w then Inr () else Inl (ImportError m))"

text \<open>\<^verbatim>\<open>subprocess.check_call([sys.executable, "-m", "pip", "install", pkg, "--quiet"])\<close>
  runs \<^verbatim>\<open>pip\<close> once and raises when its exit status is not zero.\<close>

definition check_call_pip ::
  "('pg, 'pa) library \<Rightarrow> string \<Rightarrow> world \<Rightarrow> (error + unit) \<times> world" where
  "check_call_pip L pkg w =
     (case pip_install L pkg (modules w) of
        (rc, ms) \<Rightarrow>
          (if rc = 0 then Inr () else Inl (CalledProcessError rc),
           w\<lparr>modules := ms, pip_log := pip_log w @ [pkg]\<rparr>))"

text \<open>
  \<^verbatim>\<open>try: import m
except ImportError:
    subprocess.check_call([... "install", pkg ...])
    import m\<close>
\<close>

definition import_or_install ::
  "('pg, 'pa) library \<Rightarrow> string \<Rightarrow> string \<Rightarrow> world \<Rightarrow> (error + unit) \<times> world" where
  "import_or_install L m pkg w =
     (case py_import w m of
        Inr u \<Rightarrow> (Inr u, w)
      | Inl (ImportError x) \<Rightarrow>
          (case check_call_pip L pkg w of
             (Inl e, w') \<Rightarrow> (Inl e, w')
           | (Inr u, w') \<Rightarrow> (py_import w' m, w'))
      | Inl e \<Rightarrow> (Inl e, w))"

definition startup :: "('pg, 'pa) library \<Rightarrow> world \<Rightarrow> (error + unit) \<times> world" where
  "startup L w =
     (case import_or_install L ''PyPDF2'' ''PyPDF2'' w of
        (Inl e, w') \<Rightarrow> (Inl e, w')
      | (Inr u, w') \<Rightarrow> import_or_install L ''docx'' ''python-docx'' w')"

subsection \<open>Lines 17 to 23: \<^verbatim>\<open>read_pdf\<close>\<close>

text \<open>\<^verbatim>\<open>open(file_path, 'rb')\<close>\<close>

definition open_rb :: "world \<Rightarrow> path \<Rightarrow> error + string" where
  "open_rb w file_path =
     (case files w file_path of
        Absent \<Rightarrow> Inl (FileNotFoundError file_path)
      | Denied \<Rightarrow> Inl (PermissionError file_path)
      | Content f \<Rightarrow> Inr f)"

text \<open>The loop \<^verbatim>\<open>for page in reader.pages: text += page.extract_text() + '\n'\<close>, with the
  variable \<^verbatim>\<open>text\<close> as the accumulator.\<close>

fun pages_loop :: "('pg, 'pa) library \<Rightarrow> 'pg list \<Rightarrow> string \<Rightarrow> error + string" where
  "pages_loop L [] text = Inr text"
| "pages_loop L (page # pages) text =
     (case extract_text L page of
        Inl e \<Rightarrow> Inl e
      | Inr t \<Rightarrow> pages_loop L pages (text @ (t @ nl)))"

definition read_pdf :: "('pg, 'pa) library \<Rightarrow> world \<Rightarrow> path \<Rightarrow> error + string" where
  "read_pdf L w file_path =
     (case open_rb w file_path of
        Inl e \<Rightarrow> Inl e
      | Inr f \<Rightarrow>
          (case PdfReader L f of
             Inl e \<Rightarrow> Inl e
           | Inr pages \<Rightarrow> pages_loop L pages []))"

subsection \<open>Lines 25 to 27: \<^verbatim>\<open>read_docx\<close>\<close>

text \<open>\<^verbatim>\<open>docx.Document(file_path)\<close> opens the path itself; a path it cannot read is a
  package it does not find.\<close>

definition docx_Document ::
  "('pg, 'pa) library \<Rightarrow> world \<Rightarrow> path \<Rightarrow> error + 'pa list" where
  "docx_Document L w file_path =
     (case files w file_path of
        Content f \<Rightarrow> Document L f
      | _ \<Rightarrow> Inl (PackageNotFoundError file_path))"

definition read_docx :: "('pg, 'pa) library \<Rightarrow> world \<Rightarrow> path \<Rightarrow> error + string" where
  "read_docx L w file_path =
     (case docx_Document L w file_path of
        Inl e \<Rightarrow> Inl e
      | Inr paragraphs \<Rightarrow> Inr (join nl (map (para_text L) paragraphs)))"

subsection \<open>Lines 29 to 33: writing the output file\<close>

text \<open>The three raw string literals of the script; the path separator is the
  backslash.\<close>

definition output_path :: path where
  "output_path = join [CHR 0x5C]
     [''C:'', ''Users'', ''rblos'', ''datascience'', ''Deuces'', ''notebooks'', ''sandbox'',
      ''docs_output.txt'']"

definition pdf_path :: path where
  "pdf_path = join [CHR 0x5C]
     [''C:'', ''Users'', ''rblos'', ''datascience'', ''Deuces'', ''GUIDENCE'',
      ''Team Project Instructions.pdf'']"

definition docx_path :: path where
  "docx_path = join [CHR 0x5C]
     [''C:'', ''Users'', ''rblos'', ''datascience'', ''Deuces'', ''GUIDENCE'',
      ''Base Case 1.docx'']"

text \<open>The two literals written around the extracted texts:
  \<^verbatim>\<open>"=== TEAM PROJECT INSTRUCTIONS ===\n"\<close> and \<^verbatim>\<open>"\n=== BASE CASE 1 ===\n"\<close>.\<close>

definition header_pdf :: string where
  "header_pdf = ''=== TEAM PROJECT INSTRUCTIONS ==='' @ nl"

definition header_docx :: string where
  "header_docx = nl @ ''=== BASE CASE 1 ==='' @ nl"

text \<open>
  \<^verbatim>\<open>codecs.open(p, "w", "utf-8")\<close> creates the file or empties an existing one, and raises
  when the path cannot be opened for writing. It opens the file in binary mode, so a
  line feed is written as it is and the file holds exactly the encoded strings written
  to it, one after the other.
\<close>

definition codecs_open_w :: "world \<Rightarrow> path \<Rightarrow> error + world" where
  "codecs_open_w w p =
     (if creatable w p then Inr (w\<lparr>files := (files w)(p := Content [])\<rparr>)
      else Inl (OSError p))"

text \<open>\<^verbatim>\<open>out.write(s)\<close> appends to what the file holds. Leaving the \<^verbatim>\<open>with\<close> block, by
  its end or by an exception, closes the file and keeps what was written.\<close>

definition out_write :: "world \<Rightarrow> path \<Rightarrow> string \<Rightarrow> world" where
  "out_write w p s =
     w\<lparr>files := (files w)(p := Content ((case files w p of Content c \<Rightarrow> c | _ \<Rightarrow> []) @ s))\<rparr>"

definition write_output :: "('pg, 'pa) library \<Rightarrow> world \<Rightarrow> (error + unit) \<times> world" where
  "write_output L w =
     (case codecs_open_w w output_path of
        Inl e \<Rightarrow> (Inl e, w)
      | Inr w0 \<Rightarrow>
          (let w1 = out_write w0 output_path header_pdf in
           case read_pdf L w1 pdf_path of
             Inl e \<Rightarrow> (Inl e, w1)
           | Inr pdf_text \<Rightarrow>
               (let w2 = out_write w1 output_path pdf_text;
                    w3 = out_write w2 output_path header_docx in
                case read_docx L w3 docx_path of
                  Inl e \<Rightarrow> (Inl e, w3)
                | Inr docx_text \<Rightarrow> (Inr (), out_write w3 output_path docx_text))))"

text \<open>The whole script: the imports, then the output.\<close>

definition run :: "('pg, 'pa) library \<Rightarrow> world \<Rightarrow> (error + unit) \<times> world" where
  "run L w =
     (case startup L w of
        (Inl e, w') \<Rightarrow> (Inl e, w')
      | (Inr u, w') \<Rightarrow> write_output L w')"

text \<open>What the output file holds in a world.\<close>

definition output_of :: "world \<Rightarrow> entry" where
  "output_of w = files w output_path"

subsection \<open>Documents the libraries can read\<close>



subsection \<open>A small library and a small world to run the script on\<close>

text \<open>
  A page and a paragraph are their own text. Three file contents are PDF documents (two
  pages, no page, and one whose second page cannot be extracted), two are DOCX documents
  (two paragraphs, no paragraph); everything else is rejected by both parsers.
  \<^verbatim>\<open>pip\<close> succeeds and makes the module of the package importable.
\<close>

definition example_library :: "(string, string) library" where
  "example_library =
     \<lparr>pip_install = (\<lambda>pkg ms. (0, insert (if pkg = ''python-docx'' then ''docx'' else pkg) ms)),
      PdfReader = (\<lambda>f. if f = ''%PDF two pages'' then Inr [''Team'', ''Rules'']
                        else if f = ''%PDF no page'' then Inr []
                        else if f = ''%PDF damaged page'' then Inr [''Team'', ''?'']
                        else Inl (PdfReadError ''EOF marker not found'')),
      extract_text = (\<lambda>pg. if pg = ''?'' then Inl (PdfReadError ''bad stream'') else Inr pg),
      Document = (\<lambda>f. if f = ''PK two paragraphs'' then Inr [''Base'', ''Case'']
                       else if f = ''PK no paragraph'' then Inr []
                       else Inl (PackageNotFoundError ''not a Word file'')),
      para_text = (\<lambda>p. p)\<rparr>"

text \<open>A world with both modules, the given input files and a stale output file.\<close>

definition example_world :: "entry \<Rightarrow> entry \<Rightarrow> world" where
  "example_world pdf docx =
     \<lparr>files = ((\<lambda>p. Absent)(pdf_path := pdf, docx_path := docx, output_path := Content ''old'')),
      creatable = (\<lambda>p. p = output_path),
      modules = {''PyPDF2'', ''docx''},
      pip_log = []\<rparr>"

text \<open>A world with neither module and no output file yet.\<close>

definition bare_world :: "entry \<Rightarrow> entry \<Rightarrow> world" where
  "bare_world pdf docx =
     \<lparr>files = ((\<lambda>p. Absent)(pdf_path := pdf, docx_path := docx)),
      creatable = (\<lambda>p. p = output_path),
      modules = {},
      pip_log = []\<rparr>"

section \<open>Properties\<close>

subsection \<open>Strings and paths\<close>

lemma join_formula:
  "join sep xs = (case xs of [] \<Rightarrow> [] | x # ys \<Rightarrow> x @ concat (map (\<lambda>q. sep @ q) ys))"
  by (induction sep xs rule: join.induct) simp_all

lemma join_length:
  "length (join sep xs) = sum_list (map length xs) + (length xs - 1) * length sep"
  by (induction sep xs rule: join.induct) simp_all

lemma paths_distinct:
  "pdf_path \<noteq> output_path" "docx_path \<noteq> output_path" "pdf_path \<noteq> docx_path"
  by (simp_all add: pdf_path_def docx_path_def output_path_def)

subsection \<open>The imports\<close>




lemma import_or_install_files:
  "files (snd (import_or_install L m pkg w)) = files w"
  "creatable (snd (import_or_install L m pkg w)) = creatable w"
  by (auto simp: import_or_install_def py_import_def check_call_pip_def
      split: prod.splits sum.splits error.splits if_splits)

lemma startup_files:
  "files (snd (startup L w)) = files w"
  "creatable (snd (startup L w)) = creatable w"
proof -
  obtain r w' where s: "import_or_install L ''PyPDF2'' ''PyPDF2'' w = (r, w')"
    by (cases "import_or_install L ''PyPDF2'' ''PyPDF2'' w")
  have f: "files w' = files w" "creatable w' = creatable w"
    using import_or_install_files [of L "''PyPDF2''" "''PyPDF2''" w] s by simp_all
  show "files (snd (startup L w)) = files w" "creatable (snd (startup L w)) = creatable w"
    using f by (simp_all add: startup_def s import_or_install_files split: sum.splits)
qed


subsection \<open>The two extractors\<close>

lemma read_pdf_cong:
  "files w p = files w' p \<Longrightarrow> read_pdf L w p = read_pdf L w' p"
  by (simp add: read_pdf_def open_rb_def)

lemma read_docx_cong:
  "files w p = files w' p \<Longrightarrow> read_docx L w p = read_docx L w' p"
  by (simp add: read_docx_def docx_Document_def)

lemma read_pdf_output_upd:
  "read_pdf L (w\<lparr>files := (files w)(output_path := c)\<rparr>) pdf_path = read_pdf L w pdf_path"
  by (rule read_pdf_cong) (simp add: paths_distinct)

lemma read_docx_output_upd:
  "read_docx L (w\<lparr>files := (files w)(output_path := c)\<rparr>) docx_path = read_docx L w docx_path"
  by (rule read_docx_cong) (simp add: paths_distinct)

lemma pages_loop_texts:
  "map (extract_text L) pages = map Inr Ts \<Longrightarrow>
   pages_loop L pages acc = Inr (acc @ concat (map (\<lambda>t. t @ nl) Ts))"
proof (induction pages arbitrary: acc Ts)
  case Nil
  then show ?case by simp
next
  case (Cons page pages)
  then obtain t Ts' where Ts: "Ts = t # Ts'" and t: "extract_text L page = Inr t"
    and rest: "map (extract_text L) pages = map Inr Ts'"
    by (cases Ts) auto
  from Cons.IH [OF rest] show ?case
    by (simp add: Ts t)
qed




subsection \<open>The run, case by case\<close>

lemma write_output_eq:
  "write_output L w =
     (if \<not> creatable w output_path then (Inl (OSError output_path), w)
      else case read_pdf L w pdf_path of
        Inl e \<Rightarrow> (Inl e, w\<lparr>files := (files w)(output_path := Content header_pdf)\<rparr>)
      | Inr a \<Rightarrow>
          (case read_docx L w docx_path of
             Inl e \<Rightarrow> (Inl e, w\<lparr>files := (files w)(output_path := Content (header_pdf @ a @ header_docx))\<rparr>)
           | Inr b \<Rightarrow> (Inr (), w\<lparr>files := (files w)(output_path := Content (header_pdf @ a @ header_docx @ b))\<rparr>)))"
  by (simp add: write_output_def codecs_open_w_def out_write_def Let_def
      read_pdf_output_upd read_docx_output_upd split: sum.splits)

lemma run_eq:
  "run L w =
     (case startup L w of
        (Inl e, w') \<Rightarrow> (Inl e, w')
      | (Inr u, w') \<Rightarrow>
          (if \<not> creatable w output_path then (Inl (OSError output_path), w')
           else case read_pdf L w pdf_path of
             Inl e \<Rightarrow> (Inl e, w'\<lparr>files := (files w)(output_path := Content header_pdf)\<rparr>)
           | Inr a \<Rightarrow>
               (case read_docx L w docx_path of
                  Inl e \<Rightarrow>
                    (Inl e, w'\<lparr>files := (files w)(output_path := Content (header_pdf @ a @ header_docx))\<rparr>)
                | Inr b \<Rightarrow>
                    (Inr (),
                     w'\<lparr>files := (files w)(output_path := Content (header_pdf @ a @ header_docx @ b))\<rparr>))))"
proof -
  obtain r w' where s: "startup L w = (r, w')"
    by (cases "startup L w")
  have f: "files w' = files w" "creatable w' = creatable w"
    using startup_files [of L w] s by simp_all
  have p: "read_pdf L w' pdf_path = read_pdf L w pdf_path"
    by (rule read_pdf_cong) (simp add: f)
  have d: "read_docx L w' docx_path = read_docx L w docx_path"
    by (rule read_docx_cong) (simp add: f)
  show ?thesis
    by (simp add: run_def s write_output_eq f p d split: sum.splits)
qed

lemma run_ok_cases:
  assumes "fst (run L w) = Inr ()"
  shows "\<exists>a b. fst (startup L w) = Inr () \<and> creatable w output_path
     \<and> read_pdf L w pdf_path = Inr a \<and> read_docx L w docx_path = Inr b
     \<and> output_of (snd (run L w)) = Content (header_pdf @ a @ header_docx @ b)"
  using assms
  by (auto simp: run_eq output_of_def split: prod.splits sum.splits if_splits)

lemma run_reaches_output:
  assumes "fst (startup L w) = Inr ()" and "creatable w output_path"
  shows "run L w =
     (case read_pdf L w pdf_path of
        Inl e \<Rightarrow> (Inl e, (snd (startup L w))\<lparr>files := (files w)(output_path := Content header_pdf)\<rparr>)
      | Inr a \<Rightarrow>
          (case read_docx L w docx_path of
             Inl e \<Rightarrow>
               (Inl e, (snd (startup L w))\<lparr>files := (files w)(output_path := Content (header_pdf @ a @ header_docx))\<rparr>)
           | Inr b \<Rightarrow>
               (Inr (),
                (snd (startup L w))\<lparr>files := (files w)(output_path := Content (header_pdf @ a @ header_docx @ b))\<rparr>)))"
  using assms by (cases "startup L w") (simp add: run_eq split: sum.splits)

lemma run_not_creatable:
  assumes "fst (startup L w) = Inr ()" and "\<not> creatable w output_path"
  shows "run L w = (Inl (OSError output_path), snd (startup L w))"
  using assms by (cases "startup L w") (simp add: run_eq split: sum.splits)


lemma run_files_other:
  "p \<noteq> output_path \<Longrightarrow> files (snd (run L w)) p = files w p"
  using startup_files(1) [of L w]
  by (cases "startup L w") (auto simp: run_eq split: sum.splits)

subsection \<open>The example worlds\<close>

lemma example_world_files:
  "files (example_world pdf docx) pdf_path = pdf"
  "files (example_world pdf docx) docx_path = docx"
  "files (example_world pdf docx) output_path = Content ''old''"
  using paths_distinct by (simp_all add: example_world_def)

lemma bare_world_files:
  "files (bare_world pdf docx) pdf_path = pdf"
  "files (bare_world pdf docx) docx_path = docx"
  "files (bare_world pdf docx) output_path = Absent"
  using paths_distinct by (simp_all add: bare_world_def)

lemma example_startup:
  "startup L (example_world pdf docx) = (Inr (), example_world pdf docx)"
  by (simp add: startup_def import_or_install_def py_import_def example_world_def)

lemma bare_startup:
  "startup example_library (bare_world pdf docx)
     = (Inr (), (bare_world pdf docx)\<lparr>modules := {''docx'', ''PyPDF2''},
                                       pip_log := [''PyPDF2'', ''python-docx'']\<rparr>)"
  by (simp add: startup_def import_or_install_def py_import_def check_call_pip_def
      example_library_def bare_world_def)

lemma example_creatable: "creatable (example_world pdf docx) output_path"
  by (simp add: example_world_def)

lemma example_read_pdf:
  "read_pdf example_library (example_world (Content ''%PDF two pages'') docx) pdf_path
     = Inr (''Team'' @ nl @ ''Rules'' @ nl)"
  "read_pdf example_library (example_world (Content ''%PDF no page'') docx) pdf_path = Inr []"
  "read_pdf example_library (example_world (Content ''%PDF damaged page'') docx) pdf_path
     = Inl (PdfReadError ''bad stream'')"
  "read_pdf example_library (example_world (Content ''plain text'') docx) pdf_path
     = Inl (PdfReadError ''EOF marker not found'')"
  "read_pdf example_library (example_world Absent docx) pdf_path = Inl (FileNotFoundError pdf_path)"
  "read_pdf example_library (example_world Denied docx) pdf_path = Inl (PermissionError pdf_path)"
  by (simp_all add: read_pdf_def open_rb_def example_world_files example_library_def)

lemma example_read_docx:
  "read_docx example_library (example_world pdf (Content ''PK two paragraphs'')) docx_path
     = Inr (''Base'' @ nl @ ''Case'')"
  "read_docx example_library (example_world pdf (Content ''PK no paragraph'')) docx_path = Inr []"
  "read_docx example_library (example_world pdf (Content ''plain text'')) docx_path
     = Inl (PackageNotFoundError ''not a Word file'')"
  "read_docx example_library (example_world pdf Absent) docx_path
     = Inl (PackageNotFoundError docx_path)"
  by (simp_all add: read_docx_def docx_Document_def example_world_files example_library_def)

lemma example_run:
  "read_pdf L (example_world pdf docx) pdf_path = Inr a \<Longrightarrow>
   read_docx L (example_world pdf docx) docx_path = Inr b \<Longrightarrow>
   fst (run L (example_world pdf docx)) = Inr () \<and>
   output_of (snd (run L (example_world pdf docx))) = Content (header_pdf @ a @ header_docx @ b)"
  by (simp add: run_eq example_startup example_creatable output_of_def)

lemma example_run_pdf_error:
  "read_pdf L (example_world pdf docx) pdf_path = Inl e \<Longrightarrow>
   fst (run L (example_world pdf docx)) = Inl e \<and>
   output_of (snd (run L (example_world pdf docx))) = Content header_pdf"
  by (simp add: run_eq example_startup example_creatable output_of_def)

lemma example_run_again:
  assumes p: "read_pdf L (example_world pdf docx) pdf_path = Inr a"
    and d: "read_docx L (example_world pdf docx) docx_path = Inr b"
  shows "fst (run L (snd (run L (example_world pdf docx)))) = Inr ()"
proof -
  define w' where "w' = (example_world pdf docx)
      \<lparr>files := (files (example_world pdf docx))(output_path := Content (header_pdf @ a @ header_docx @ b))\<rparr>"
  have r: "snd (run L (example_world pdf docx)) = w'"
    by (simp add: run_eq example_startup example_creatable p d w'_def)
  have s: "fst (startup L w') = Inr ()"
    by (simp add: w'_def startup_def import_or_install_def py_import_def example_world_def)
  have c: "creatable w' output_path"
    by (simp add: w'_def example_creatable)
  have p': "read_pdf L w' pdf_path = Inr a"
    unfolding w'_def by (simp only: read_pdf_output_upd p)
  have d': "read_docx L w' docx_path = Inr b"
    unfolding w'_def by (simp only: read_docx_output_upd d)
  show ?thesis
    by (simp add: r run_reaches_output [OF s c] p' d')
qed

section \<open>The claims\<close>

subsection \<open>The PDF extractor\<close>

text \<open>
  Claim C1. For a PDF document whose file can be read, that the parser accepts, and
  whose pages have the extractable texts \<open>T\<^sub>1, \<dots>, T\<^sub>N\<close> in document order,
  \<^verbatim>\<open>read_pdf\<close> returns \<open>T\<^sub>1 + "\n" + \<dots> + T\<^sub>N + "\n"\<close>: every page's text followed by one
  line feed, also the last one.
\<close>

theorem read_pdf_pages:
  assumes "files w file_path = Content f"
    and "PdfReader L f = Inr pages"
    and "map (extract_text L) pages = map Inr Ts"
  shows "read_pdf L w file_path = Inr (concat (map (\<lambda>t. t @ nl) Ts))"
  using assms pages_loop_texts [of L pages Ts "[]"]
  by (simp add: read_pdf_def open_rb_def)

theorem read_pdf_pages_witness:
  "files (example_world (Content ''%PDF two pages'') Absent) pdf_path = Content ''%PDF two pages''
   \<and> PdfReader example_library ''%PDF two pages'' = Inr [''Team'', ''Rules'']
   \<and> map (extract_text example_library) [''Team'', ''Rules''] = map Inr [''Team'', ''Rules'']
   \<and> read_pdf example_library (example_world (Content ''%PDF two pages'') Absent) pdf_path
       = Inr (''Team'' @ nl @ ''Rules'' @ nl)"
proof -
  have f: "files (example_world (Content ''%PDF two pages'') Absent) pdf_path
           = Content ''%PDF two pages''"
    by (simp add: example_world_files)
  have r: "PdfReader example_library ''%PDF two pages'' = Inr [''Team'', ''Rules'']"
    by (simp add: example_library_def)
  have t: "map (extract_text example_library) [''Team'', ''Rules''] = map Inr [''Team'', ''Rules'']"
    by (simp add: example_library_def)
  from read_pdf_pages [OF f r t] f r t show ?thesis
    by simp
qed

text \<open>
  Claim C5, as the code has it. For a PDF with no page \<^verbatim>\<open>read_pdf\<close> returns the empty
  string, and in the output file of a run that gets to write, the first header line is
  followed at once by the second literal of the script: one line feed and then the line
  \<^verbatim>\<open>=== BASE CASE 1 ===\<close>. The PDF section holds no character.
\<close>

theorem read_pdf_no_page:
  assumes "files w pdf_path = Content f" and "PdfReader L f = Inr []"
    and "fst (startup L w) = Inr ()" and "creatable w output_path"
  shows "read_pdf L w pdf_path = Inr []
       \<and> (\<exists>rest. output_of (snd (run L w))
             = Content (''=== TEAM PROJECT INSTRUCTIONS ==='' @ nl
                        @ nl @ ''=== BASE CASE 1 ==='' @ nl @ rest))"
proof -
  have p: "read_pdf L w pdf_path = Inr []"
    using assms(1,2) by (simp add: read_pdf_def open_rb_def)
  show ?thesis
    using p run_reaches_output [OF assms(3,4)]
    by (cases "read_docx L w docx_path") (simp_all add: output_of_def header_pdf_def header_docx_def)
qed

theorem read_pdf_no_page_witness:
  "files (example_world (Content ''%PDF no page'') (Content ''PK two paragraphs'')) pdf_path
     = Content ''%PDF no page''
   \<and> PdfReader example_library ''%PDF no page'' = Inr []
   \<and> fst (startup example_library
            (example_world (Content ''%PDF no page'') (Content ''PK two paragraphs''))) = Inr ()
   \<and> creatable (example_world (Content ''%PDF no page'') (Content ''PK two paragraphs'')) output_path
   \<and> read_pdf example_library
         (example_world (Content ''%PDF no page'') (Content ''PK two paragraphs'')) pdf_path = Inr []
   \<and> output_of (snd (run example_library
         (example_world (Content ''%PDF no page'') (Content ''PK two paragraphs''))))
       = Content (''=== TEAM PROJECT INSTRUCTIONS ==='' @ nl
                  @ nl @ ''=== BASE CASE 1 ==='' @ nl @ (''Base'' @ nl @ ''Case''))"
proof -
  have f: "files (example_world (Content ''%PDF no page'') (Content ''PK two paragraphs'')) pdf_path
     = Content ''%PDF no page''"
    by (simp add: example_world_files)
  have r: "PdfReader example_library ''%PDF no page'' = Inr []"
    by (simp add: example_library_def)
  have s: "fst (startup example_library
            (example_world (Content ''%PDF no page'') (Content ''PK two paragraphs''))) = Inr ()"
    by (simp add: example_startup)
  have c: "creatable (example_world (Content ''%PDF no page'') (Content ''PK two paragraphs'')) output_path"
    by (rule example_creatable)
  have out: "output_of (snd (run example_library
         (example_world (Content ''%PDF no page'') (Content ''PK two paragraphs''))))
       = Content (''=== TEAM PROJECT INSTRUCTIONS ==='' @ nl
                  @ nl @ ''=== BASE CASE 1 ==='' @ nl @ (''Base'' @ nl @ ''Case''))"
    using example_run [OF example_read_pdf(2) example_read_docx(1)]
    by (simp add: header_pdf_def header_docx_def)
  from read_pdf_no_page [OF f r s c] f r s c out show ?thesis
    by simp
qed

text \<open>
  With no page, the text \<^verbatim>\<open>=== BASE CASE 1 ===\<close> does not come right after the first
  header line and the empty PDF section: a line feed comes first.
\<close>

theorem read_pdf_no_page_counterexample:
  "read_pdf example_library
     (example_world (Content ''%PDF no page'') (Content ''PK two paragraphs'')) pdf_path = Inr []
   \<and> fst (run example_library
         (example_world (Content ''%PDF no page'') (Content ''PK two paragraphs''))) = Inr ()
   \<and> output_of (snd (run example_library
         (example_world (Content ''%PDF no page'') (Content ''PK two paragraphs''))))
       = Content (''=== TEAM PROJECT INSTRUCTIONS ==='' @ nl
                  @ nl @ ''=== BASE CASE 1 ==='' @ nl @ (''Base'' @ nl @ ''Case''))
   \<and> \<not> prefix (''=== TEAM PROJECT INSTRUCTIONS ==='' @ nl @ [] @ ''=== BASE CASE 1 ==='')
         (''=== TEAM PROJECT INSTRUCTIONS ==='' @ nl
                  @ nl @ ''=== BASE CASE 1 ==='' @ nl @ (''Base'' @ nl @ ''Case''))"
  using example_run [OF example_read_pdf(2) example_read_docx(1)]
  by (simp add: example_read_pdf(2) header_pdf_def header_docx_def nl_def)

subsection \<open>The DOCX extractor\<close>

text \<open>
  Claim C2. For a DOCX document whose file can be read, that the parser accepts, and
  whose paragraphs have the texts \<open>P\<^sub>1, \<dots>, P\<^sub>M\<close> in document order, \<^verbatim>\<open>read_docx\<close> returns
  \<open>P\<^sub>1 + "\n" + P\<^sub>2 + \<dots> + "\n" + P\<^sub>M\<close>: the first text, then every later text with one
  line feed before it. Nothing is added in front or at the end: the result is as
  long as the texts together plus the \<open>M - 1\<close> line feeds between them.
\<close>

theorem read_docx_paragraphs:
  assumes "files w file_path = Content f"
    and "Document L f = Inr paragraphs"
    and "map (para_text L) paragraphs = Ps"
  shows "\<exists>r. read_docx L w file_path = Inr r
     \<and> r = (case Ps of [] \<Rightarrow> [] | P # Qs \<Rightarrow> P @ concat (map (\<lambda>Q. nl @ Q) Qs))
     \<and> length r = sum_list (map length Ps) + (length Ps - 1)"
  using assms join_formula [of nl Ps] join_length [of nl Ps]
  by (simp add: read_docx_def docx_Document_def nl_def)

theorem read_docx_paragraphs_witness:
  "files (example_world Absent (Content ''PK two paragraphs'')) docx_path = Content ''PK two paragraphs''
   \<and> Document example_library ''PK two paragraphs'' = Inr [''Base'', ''Case'']
   \<and> map (para_text example_library) [''Base'', ''Case''] = [''Base'', ''Case'']
   \<and> read_docx example_library (example_world Absent (Content ''PK two paragraphs'')) docx_path
       = Inr (''Base'' @ nl @ ''Case'')"
proof -
  have f: "files (example_world Absent (Content ''PK two paragraphs'')) docx_path
           = Content ''PK two paragraphs''"
    by (simp add: example_world_files)
  have d: "Document example_library ''PK two paragraphs'' = Inr [''Base'', ''Case'']"
    by (simp add: example_library_def)
  have t: "map (para_text example_library) [''Base'', ''Case''] = [''Base'', ''Case'']"
    by (simp add: example_library_def)
  from read_docx_paragraphs [OF f d t] f d t show ?thesis
    by auto
qed

text \<open>
  Claim C10. For a DOCX document with no paragraph \<^verbatim>\<open>read_docx\<close> returns the empty
  string and does not raise, so the output file of a successful run ends with a line
  feed, the text \<^verbatim>\<open>=== BASE CASE 1 ===\<close> and a line feed, with nothing after it.
\<close>

theorem read_docx_no_paragraph:
  assumes "files w docx_path = Content f" and "Document L f = Inr []"
    and "fst (run L w) = Inr ()"
  shows "read_docx L w docx_path = Inr []
       \<and> (\<exists>before. output_of (snd (run L w))
             = Content (before @ nl @ ''=== BASE CASE 1 ==='' @ nl))"
proof -
  have d: "read_docx L w docx_path = Inr []"
    using assms(1,2) by (simp add: read_docx_def docx_Document_def)
  from run_ok_cases [OF assms(3)] obtain a where
    "output_of (snd (run L w)) = Content (header_pdf @ a @ header_docx @ [])"
    using d by auto
  then have "output_of (snd (run L w)) = Content ((header_pdf @ a) @ nl @ ''=== BASE CASE 1 ==='' @ nl)"
    by (simp add: header_docx_def)
  with d show ?thesis
    by blast
qed

theorem read_docx_no_paragraph_witness:
  "files (example_world (Content ''%PDF two pages'') (Content ''PK no paragraph'')) docx_path
     = Content ''PK no paragraph''
   \<and> Document example_library ''PK no paragraph'' = Inr []
   \<and> fst (run example_library
         (example_world (Content ''%PDF two pages'') (Content ''PK no paragraph''))) = Inr ()
   \<and> read_docx example_library
         (example_world (Content ''%PDF two pages'') (Content ''PK no paragraph'')) docx_path = Inr []
   \<and> (\<exists>before. output_of (snd (run example_library
         (example_world (Content ''%PDF two pages'') (Content ''PK no paragraph''))))
             = Content (before @ nl @ ''=== BASE CASE 1 ==='' @ nl))"
proof -
  have f: "files (example_world (Content ''%PDF two pages'') (Content ''PK no paragraph'')) docx_path
     = Content ''PK no paragraph''"
    by (simp add: example_world_files)
  have d: "Document example_library ''PK no paragraph'' = Inr []"
    by (simp add: example_library_def)
  have ok: "fst (run example_library
         (example_world (Content ''%PDF two pages'') (Content ''PK no paragraph''))) = Inr ()"
    using example_run [OF example_read_pdf(1) example_read_docx(2)] by simp
  from read_docx_no_paragraph [OF f d ok] f d ok show ?thesis
    by simp
qed

subsection \<open>The output file\<close>

text \<open>
  Claim C3, as the code has it. After a successful run the output file holds exactly:
  the line \<^verbatim>\<open>=== TEAM PROJECT INSTRUCTIONS ===\<close>, then what \<^verbatim>\<open>read_pdf\<close> returned, then one
  line feed, then the line \<^verbatim>\<open>=== BASE CASE 1 ===\<close>, then what \<^verbatim>\<open>read_docx\<close> returned.
  The second literal the script writes is \<^verbatim>\<open>"\n=== BASE CASE 1 ===\n"\<close>: it starts with a
  line feed, which stands between the PDF text and the second header line.
\<close>

theorem output_layout:
  assumes "fst (run L w) = Inr ()"
  shows "\<exists>pdf_text docx_text.
           read_pdf L w pdf_path = Inr pdf_text
         \<and> read_docx L w docx_path = Inr docx_text
         \<and> output_of (snd (run L w))
             = Content (''=== TEAM PROJECT INSTRUCTIONS ==='' @ nl @ pdf_text
                        @ nl @ ''=== BASE CASE 1 ==='' @ nl @ docx_text)"
  using run_ok_cases [OF assms] by (auto simp: header_pdf_def header_docx_def)

theorem output_layout_witness:
  "fst (run example_library
         (example_world (Content ''%PDF two pages'') (Content ''PK two paragraphs''))) = Inr ()
   \<and> output_of (snd (run example_library
         (example_world (Content ''%PDF two pages'') (Content ''PK two paragraphs''))))
       = Content (''=== TEAM PROJECT INSTRUCTIONS ==='' @ nl @ (''Team'' @ nl @ ''Rules'' @ nl)
                  @ nl @ ''=== BASE CASE 1 ==='' @ nl @ (''Base'' @ nl @ ''Case''))"
proof -
  have ok: "fst (run example_library
         (example_world (Content ''%PDF two pages'') (Content ''PK two paragraphs''))) = Inr ()"
    using example_run [OF example_read_pdf(1) example_read_docx(1)] by simp
  from output_layout [OF ok] ok show ?thesis
    by (simp add: example_read_pdf(1) example_read_docx(1))
qed

text \<open>
  The layout without that line feed (first header line, PDF text, second header line,
  DOCX text and nothing else) is not what the script writes: for a PDF of two pages
  and a DOCX of two paragraphs the output file differs from it.
\<close>

theorem output_layout_counterexample:
  "fst (run example_library
         (example_world (Content ''%PDF two pages'') (Content ''PK two paragraphs''))) = Inr ()
   \<and> read_pdf example_library
         (example_world (Content ''%PDF two pages'') (Content ''PK two paragraphs'')) pdf_path
       = Inr (''Team'' @ nl @ ''Rules'' @ nl)
   \<and> read_docx example_library
         (example_world (Content ''%PDF two pages'') (Content ''PK two paragraphs'')) docx_path
       = Inr (''Base'' @ nl @ ''Case'')
   \<and> output_of (snd (run example_library
         (example_world (Content ''%PDF two pages'') (Content ''PK two paragraphs''))))
       \<noteq> Content (''=== TEAM PROJECT INSTRUCTIONS ==='' @ nl @ (''Team'' @ nl @ ''Rules'' @ nl)
                  @ ''=== BASE CASE 1 ==='' @ nl @ (''Base'' @ nl @ ''Case''))"
  using example_run [OF example_read_pdf(1) example_read_docx(1)]
  by (simp add: example_read_pdf(1) example_read_docx(1) header_pdf_def header_docx_def nl_def)

text \<open>
  Claim C4. Whenever the run succeeds, the output file begins with the header
  \<^verbatim>\<open>=== TEAM PROJECT INSTRUCTIONS ===\<close> followed by a line feed, whatever the libraries
  make of the two input files.
\<close>

theorem output_begins_with_header:
  assumes "fst (run L w) = Inr ()"
  shows "\<exists>rest. output_of (snd (run L w))
           = Content (''=== TEAM PROJECT INSTRUCTIONS ==='' @ nl @ rest)"
  using run_ok_cases [OF assms] by (auto simp: header_pdf_def)

theorem output_begins_with_header_witness:
  "fst (run example_library
         (example_world (Content ''%PDF two pages'') (Content ''PK two paragraphs''))) = Inr ()
   \<and> (\<exists>rest. output_of (snd (run example_library
         (example_world (Content ''%PDF two pages'') (Content ''PK two paragraphs''))))
           = Content (''=== TEAM PROJECT INSTRUCTIONS ==='' @ nl @ rest))"
proof -
  have ok: "fst (run example_library
         (example_world (Content ''%PDF two pages'') (Content ''PK two paragraphs''))) = Inr ()"
    using example_run [OF example_read_pdf(1) example_read_docx(1)] by simp
  from output_begins_with_header [OF ok] ok show ?thesis
    by simp
qed

subsection \<open>Errors\<close>

text \<open>
  Claim C6, as the code has it. The output file is opened for writing, and the first
  header is written, before \<^verbatim>\<open>read_pdf\<close> is called. So when the PDF path does not
  exist and the imports have succeeded, the run ends with a file-access error, and
  either the output file could be opened, the error is the missing PDF and the output
  file holds the first header line and nothing else, or the output file could not be
  opened, the error is that one and the output path is as it was.
\<close>

theorem missing_pdf:
  assumes "files w pdf_path = Absent" and "fst (startup L w) = Inr ()"
  shows "(creatable w output_path \<longrightarrow>
            fst (run L w) = Inl (FileNotFoundError pdf_path)
          \<and> output_of (snd (run L w)) = Content (''=== TEAM PROJECT INSTRUCTIONS ==='' @ nl))
       \<and> (\<not> creatable w output_path \<longrightarrow>
            fst (run L w) = Inl (OSError output_path)
          \<and> output_of (snd (run L w)) = output_of w)"
proof -
  have p: "read_pdf L w pdf_path = Inl (FileNotFoundError pdf_path)"
    using assms(1) by (simp add: read_pdf_def open_rb_def)
  show ?thesis
    using p run_reaches_output [OF assms(2)] run_not_creatable [OF assms(2)]
    by (simp add: output_of_def header_pdf_def startup_files)
qed

theorem missing_pdf_witness:
  "files (example_world Absent (Content ''PK two paragraphs'')) pdf_path = Absent
   \<and> fst (startup example_library (example_world Absent (Content ''PK two paragraphs''))) = Inr ()
   \<and> creatable (example_world Absent (Content ''PK two paragraphs'')) output_path
   \<and> fst (run example_library (example_world Absent (Content ''PK two paragraphs'')))
       = Inl (FileNotFoundError pdf_path)
   \<and> output_of (snd (run example_library (example_world Absent (Content ''PK two paragraphs''))))
       = Content (''=== TEAM PROJECT INSTRUCTIONS ==='' @ nl)"
proof -
  have f: "files (example_world Absent (Content ''PK two paragraphs'')) pdf_path = Absent"
    by (simp add: example_world_files)
  have s: "fst (startup example_library (example_world Absent (Content ''PK two paragraphs''))) = Inr ()"
    by (simp add: example_startup)
  have c: "creatable (example_world Absent (Content ''PK two paragraphs'')) output_path"
    by (rule example_creatable)
  from missing_pdf [OF f s] f s c show ?thesis
    by simp
qed

text \<open>
  An output file that exists before the run is not left as it was when the PDF is
  missing: its old content is replaced by the first header line.
\<close>

theorem missing_pdf_counterexample:
  "files (example_world Absent (Content ''PK two paragraphs'')) pdf_path = Absent
   \<and> output_of (example_world Absent (Content ''PK two paragraphs'')) = Content ''old''
   \<and> fst (run example_library (example_world Absent (Content ''PK two paragraphs'')))
       = Inl (FileNotFoundError pdf_path)
   \<and> output_of (snd (run example_library (example_world Absent (Content ''PK two paragraphs''))))
       = Content (''=== TEAM PROJECT INSTRUCTIONS ==='' @ nl)
   \<and> output_of (snd (run example_library (example_world Absent (Content ''PK two paragraphs''))))
       \<noteq> output_of (example_world Absent (Content ''PK two paragraphs''))"
  using example_run_pdf_error [OF example_read_pdf(5)]
  by (simp add: example_world_files output_of_def header_pdf_def nl_def)





subsection \<open>Determinism\<close>

text \<open>
  Claim C7. The libraries are functions, the same in every run. Two runs that succeed
  in worlds that hold the same PDF file and the same DOCX file leave the same content in
  the output file, whatever else differs between the worlds (the old content of the
  output file, the installed modules, other files). A run changes neither input file,
  so a second run right after the first one, if it succeeds, leaves the output file as
  the first one left it.
\<close>

theorem run_deterministic:
  "(files w1 pdf_path = files w2 pdf_path \<and> files w1 docx_path = files w2 docx_path
      \<and> fst (run L w1) = Inr () \<and> fst (run L w2) = Inr ()
      \<longrightarrow> output_of (snd (run L w1)) = output_of (snd (run L w2)))
   \<and> files (snd (run L w)) pdf_path = files w pdf_path
   \<and> files (snd (run L w)) docx_path = files w docx_path
   \<and> (fst (run L w) = Inr () \<and> fst (run L (snd (run L w))) = Inr ()
      \<longrightarrow> output_of (snd (run L (snd (run L w)))) = output_of (snd (run L w)))"
proof -
  have two: "output_of (snd (run L u)) = output_of (snd (run L v))"
    if f: "files u pdf_path = files v pdf_path" "files u docx_path = files v docx_path"
      and ok: "fst (run L u) = Inr ()" "fst (run L v) = Inr ()" for u v
  proof -
    have p: "read_pdf L u pdf_path = read_pdf L v pdf_path"
      by (rule read_pdf_cong) (rule f(1))
    have d: "read_docx L u docx_path = read_docx L v docx_path"
      by (rule read_docx_cong) (rule f(2))
    from run_ok_cases [OF ok(1)] run_ok_cases [OF ok(2)] p d show ?thesis
      by auto
  qed
  have keep: "files (snd (run L w)) pdf_path = files w pdf_path"
    "files (snd (run L w)) docx_path = files w docx_path"
    by (simp_all add: run_files_other paths_distinct)
  from two [of w1 w2] two [of "snd (run L w)" w] keep show ?thesis
    by blast
qed

theorem run_deterministic_witness:
  "files (example_world (Content ''%PDF two pages'') (Content ''PK two paragraphs'')) pdf_path
     = files (bare_world (Content ''%PDF two pages'') (Content ''PK two paragraphs'')) pdf_path
   \<and> files (example_world (Content ''%PDF two pages'') (Content ''PK two paragraphs'')) docx_path
     = files (bare_world (Content ''%PDF two pages'') (Content ''PK two paragraphs'')) docx_path
   \<and> fst (run example_library
         (example_world (Content ''%PDF two pages'') (Content ''PK two paragraphs''))) = Inr ()
   \<and> fst (run example_library
         (bare_world (Content ''%PDF two pages'') (Content ''PK two paragraphs''))) = Inr ()
   \<and> output_of (example_world (Content ''%PDF two pages'') (Content ''PK two paragraphs''))
       \<noteq> output_of (bare_world (Content ''%PDF two pages'') (Content ''PK two paragraphs''))
   \<and> output_of (snd (run example_library
         (example_world (Content ''%PDF two pages'') (Content ''PK two paragraphs''))))
     = output_of (snd (run example_library
         (bare_world (Content ''%PDF two pages'') (Content ''PK two paragraphs''))))
   \<and> fst (run example_library (snd (run example_library
         (example_world (Content ''%PDF two pages'') (Content ''PK two paragraphs''))))) = Inr ()
   \<and> output_of (snd (run example_library (snd (run example_library
         (example_world (Content ''%PDF two pages'') (Content ''PK two paragraphs''))))))
     = output_of (snd (run example_library
         (example_world (Content ''%PDF two pages'') (Content ''PK two paragraphs''))))"
proof -
  have f: "files (example_world (Content ''%PDF two pages'') (Content ''PK two paragraphs'')) pdf_path
     = files (bare_world (Content ''%PDF two pages'') (Content ''PK two paragraphs'')) pdf_path"
    "files (example_world (Content ''%PDF two pages'') (Content ''PK two paragraphs'')) docx_path
     = files (bare_world (Content ''%PDF two pages'') (Content ''PK two paragraphs'')) docx_path"
    by (simp_all add: example_world_files bare_world_files)
  have ok1: "fst (run example_library
         (example_world (Content ''%PDF two pages'') (Content ''PK two paragraphs''))) = Inr ()"
    using example_run [OF example_read_pdf(1) example_read_docx(1)] by simp
  have ok2: "fst (run example_library
         (bare_world (Content ''%PDF two pages'') (Content ''PK two paragraphs''))) = Inr ()"
  proof -
    have s: "fst (startup example_library
         (bare_world (Content ''%PDF two pages'') (Content ''PK two paragraphs''))) = Inr ()"
      by (simp add: bare_startup)
    have c: "creatable (bare_world (Content ''%PDF two pages'') (Content ''PK two paragraphs''))
         output_path"
      by (simp add: bare_world_def)
    have p: "read_pdf example_library
         (bare_world (Content ''%PDF two pages'') (Content ''PK two paragraphs'')) pdf_path
       = Inr (''Team'' @ nl @ ''Rules'' @ nl)"
      by (simp add: read_pdf_def open_rb_def bare_world_files example_library_def)
    have d: "read_docx example_library
         (bare_world (Content ''%PDF two pages'') (Content ''PK two paragraphs'')) docx_path
       = Inr (''Base'' @ nl @ ''Case'')"
      by (simp add: read_docx_def docx_Document_def bare_world_files example_library_def)
    show ?thesis
      by (simp add: run_reaches_output [OF s c] p d)
  qed
  have old: "output_of (example_world (Content ''%PDF two pages'') (Content ''PK two paragraphs''))
       \<noteq> output_of (bare_world (Content ''%PDF two pages'') (Content ''PK two paragraphs''))"
    by (simp add: output_of_def example_world_files bare_world_files)
  have ok3: "fst (run example_library (snd (run example_library
         (example_world (Content ''%PDF two pages'') (Content ''PK two paragraphs''))))) = Inr ()"
    by (rule example_run_again [OF example_read_pdf(1) example_read_docx(1)])
  from run_deterministic [of
      "example_world (Content ''%PDF two pages'') (Content ''PK two paragraphs'')"
      "bare_world (Content ''%PDF two pages'') (Content ''PK two paragraphs'')" example_library
      "example_world (Content ''%PDF two pages'') (Content ''PK two paragraphs'')"]
    f ok1 ok2 ok3 old
  show ?thesis
    by simp
qed

end
